theory Spec2Isabelle
  imports Complex_Main "HOL-Library.Signed_Division"
begin

section \<open>Price arithmetic of the order-book module\<close>

text \<open>
  The order-book module works on JavaScript numbers and bigints. Tick indices, tick
  spacings and window sizes are integer-valued numbers and are modelled as \<open>int\<close>;
  bigints are unbounded and are modelled as \<open>int\<close> as well. Prices and amounts are
  numbers with a fractional part; they are modelled as exact reals, so \<open>Math.pow\<close> is
  the exact power and no rounding, overflow or underflow of doubles is represented.
\<close>

definition Q96 :: int where
  "Q96 = 2 ^ 96"

definition Q192 :: int where
  "Q192 = Q96 * Q96"

record OrderBookLevel =
  price :: real
  amountToken0 :: real

record OrderBookReturn =
  bids :: "OrderBookLevel list"
  asks :: "OrderBookLevel list"
  currentMidTick :: int
  currentMidPrice :: real

text \<open>\<open>tickToPrice\<close>: the reciprocal of \<open>1.0001 ^ tick\<close>, scaled by the decimals.\<close>

definition tickToPrice :: "int \<Rightarrow> int \<Rightarrow> int \<Rightarrow> real" where
  "tickToPrice tick token0Decimals token1Decimals =
     (let val = (10001 / 10000) powi tick;
          priceOfToken0InToken1 = 1 / val
      in priceOfToken0InToken1 * 10 powi (token0Decimals - token1Decimals))"


section \<open>The order-book builder\<close>

text \<open>
  What the public client answers. \<open>readContract\<close> either rejects with a message or
  returns the decoded value; \<open>multicall\<close> with \<open>allowFailure\<close> either rejects as a
  whole or answers every call with a status record. The calls of one batch have distinct
  tick arguments, so the answers are given as a function of the tick argument.
\<close>

type_synonym TickDataTuple = "int \<times> int \<times> int \<times> int \<times> int \<times> int \<times> int \<times> bool"

type_synonym Slot0DataTuple = "int \<times> int \<times> int \<times> int \<times> int \<times> int \<times> bool"

datatype multicall_result = Failure string | Success TickDataTuple

record PublicClient =
  read_slot0 :: "string + Slot0DataTuple"
  read_liquidity :: "string + int"
  read_tickSpacing :: "string + int"
  multicall_ticks :: "string + (int \<Rightarrow> multicall_result)"

record FetchOrderBookParams =
  publicClient :: PublicClient
  poolAddress :: string
  token0Decimals :: int
  token1Decimals :: int
  ticksToQueryPerSide :: "int option"

record TickData =
  liquidityNet :: int
  initialized :: bool

text \<open>Element 1 and element 7 of the tuple returned by \<open>ticks\<close>.\<close>

definition tuple_liquidityNet :: "TickDataTuple \<Rightarrow> int" where
  "tuple_liquidityNet tickTuple = fst (snd tickTuple)"

definition tuple_initialized :: "TickDataTuple \<Rightarrow> bool" where
  "tuple_initialized tickTuple = snd (snd (snd (snd (snd (snd (snd tickTuple))))))"

text \<open>The two loops that fill \<open>tickIndicesToQuery\<close>, from \<open>i = 0\<close> and from \<open>i = 1\<close>.\<close>

function push_below :: "int \<Rightarrow> int \<Rightarrow> int \<Rightarrow> int \<Rightarrow> int list \<Rightarrow> int list" where
  "push_below currentTick tickSpacingNumber n i acc =
     (if i \<le> n
      then push_below currentTick tickSpacingNumber n (i + 1)
             (acc @ [currentTick - i * tickSpacingNumber])
      else acc)"
  by pat_completeness auto
termination
  by (relation "measure (\<lambda>(c, s, n, i, acc). nat (n + 1 - i))") auto

function push_above :: "int \<Rightarrow> int \<Rightarrow> int \<Rightarrow> int \<Rightarrow> int list \<Rightarrow> int list" where
  "push_above currentTick tickSpacingNumber n i acc =
     (if i \<le> n
      then push_above currentTick tickSpacingNumber n (i + 1)
             (acc @ [currentTick + i * tickSpacingNumber])
      else acc)"
  by pat_completeness auto
termination
  by (relation "measure (\<lambda>(c, s, n, i, acc). nat (n + 1 - i))") auto

declare push_below.simps [simp del] push_above.simps [simp del]

definition tickIndicesToQuery :: "int \<Rightarrow> int \<Rightarrow> int \<Rightarrow> int list" where
  "tickIndicesToQuery currentTick tickSpacingNumber n =
     push_above currentTick tickSpacingNumber n 1
       (push_below currentTick tickSpacingNumber n 0 [])"

text \<open>Spreading a \<open>Set\<close> built from a list keeps the first occurrence of each element.\<close>

fun uniq :: "int list \<Rightarrow> int list" where
  "uniq [] = []"
| "uniq (x # xs) = x # uniq (filter (\<lambda>y. y \<noteq> x) xs)"

definition uniqueSortedTickIndices :: "int \<Rightarrow> int \<Rightarrow> int \<Rightarrow> int list" where
  "uniqueSortedTickIndices currentTick tickSpacingNumber n =
     sort (uniq (tickIndicesToQuery currentTick tickSpacingNumber n))"

text \<open>The default of the destructured parameter.\<close>

definition ticksPerSide :: "FetchOrderBookParams \<Rightarrow> int" where
  "ticksPerSide params = (case ticksToQueryPerSide params of None \<Rightarrow> 50 | Some n \<Rightarrow> n)"

text \<open>
  The \<open>forEach\<close> over the batch answers: only a successful answer whose tuple has the
  initialized flag set is stored.
\<close>

definition store_tick ::
  "(int \<rightharpoonup> TickData) \<Rightarrow> multicall_result \<times> int \<Rightarrow> (int \<rightharpoonup> TickData)" where
  "store_tick fetched ri =
     (case fst ri of
        Failure e \<Rightarrow> fetched
      | Success tickTuple \<Rightarrow>
          if tuple_initialized tickTuple
          then fetched(snd ri \<mapsto>
                 \<lparr>liquidityNet = tuple_liquidityNet tickTuple,
                  initialized = tuple_initialized tickTuple\<rparr>)
          else fetched)"

definition fetchedTicksData :: "multicall_result list \<Rightarrow> int list \<Rightarrow> (int \<rightharpoonup> TickData)" where
  "fetchedTicksData tickResults indices = foldl store_tick Map.empty (zip tickResults indices)"

text \<open>
  The placeholder amount: bigint division truncates towards zero, the quotient is
  converted to a number and scaled.
\<close>

definition amountPlaceholder :: "int \<Rightarrow> int \<Rightarrow> real" where
  "amountPlaceholder cumulativeL d0 = real_of_int (cumulativeL sdiv Q96) / (100 * 10 powi d0)"

text \<open>
  The two walks. Each is the \<open>for\<close> loop of the source as it is written, with the loop
  variable \<open>T\<close>, the running liquidity and the list built so far; a walk that never
  leaves its loop has no value.
\<close>

partial_function (option) asks_loop ::
  "(int \<rightharpoonup> TickData) \<Rightarrow> int \<Rightarrow> int \<Rightarrow> int \<Rightarrow> int \<Rightarrow> int \<Rightarrow> real \<Rightarrow>
   int \<Rightarrow> int \<Rightarrow> OrderBookLevel list \<Rightarrow> OrderBookLevel list option" where
  "asks_loop fetched currentTick tickSpacingNumber n d0 d1 midPrice T cumulativeL_asks acc =
     (if T \<le> currentTick + n * tickSpacingNumber
      then
        (let price_T = tickToPrice T d0 d1;
             cumulativeL_asks' =
               (case fetched (T - tickSpacingNumber) of
                  Some tickDataForPrevSegment \<Rightarrow>
                    cumulativeL_asks + liquidityNet tickDataForPrevSegment
                | None \<Rightarrow> cumulativeL_asks);
             amount = amountPlaceholder cumulativeL_asks' d0;
             acc' = (if price_T > midPrice
                     then acc @ [\<lparr>price = price_T, amountToken0 = amount\<rparr>]
                     else acc)
         in asks_loop fetched currentTick tickSpacingNumber n d0 d1 midPrice
              (T + tickSpacingNumber) cumulativeL_asks' acc')
      else Some acc)"

partial_function (option) bids_loop ::
  "(int \<rightharpoonup> TickData) \<Rightarrow> int \<Rightarrow> int \<Rightarrow> int \<Rightarrow> int \<Rightarrow> int \<Rightarrow> real \<Rightarrow>
   int \<Rightarrow> int \<Rightarrow> OrderBookLevel list \<Rightarrow> OrderBookLevel list option" where
  "bids_loop fetched currentTick tickSpacingNumber n d0 d1 midPrice T cumulativeL_bids acc =
     (if T \<ge> currentTick - n * tickSpacingNumber
      then
        (let price_T = tickToPrice T d0 d1;
             amount = amountPlaceholder cumulativeL_bids d0;
             acc' = (if price_T < midPrice \<or> T = currentTick
                     then acc @ [\<lparr>price = price_T, amountToken0 = amount\<rparr>]
                     else acc);
             cumulativeL_bids' =
               (case fetched T of
                  Some tickData \<Rightarrow> cumulativeL_bids - liquidityNet tickData
                | None \<Rightarrow> cumulativeL_bids)
         in bids_loop fetched currentTick tickSpacingNumber n d0 d1 midPrice
              (T - tickSpacingNumber) cumulativeL_bids' acc')
      else Some acc)"

text \<open>
  \<open>fetchAndCalculateOrderBook\<close>. A rejected read rejects the call (\<open>Inl\<close>); the result
  is \<open>None\<close> when one of the walks does not end. Both \<open>sort\<close> calls are stable.
\<close>

definition fetchAndCalculateOrderBook ::
  "FetchOrderBookParams \<Rightarrow> (string + OrderBookReturn) option" where
  "fetchAndCalculateOrderBook params =
     (let d0 = token0Decimals params; d1 = token1Decimals params; n = ticksPerSide params
      in case read_slot0 (publicClient params) of
           Inl e \<Rightarrow> Some (Inl e)
         | Inr slot0Data \<Rightarrow>
       (let currentTick = fst (snd slot0Data)
        in case read_liquidity (publicClient params) of
             Inl e \<Rightarrow> Some (Inl e)
           | Inr poolLiquidity \<Rightarrow>
       (let currentActiveLiquidity = poolLiquidity
        in case read_tickSpacing (publicClient params) of
             Inl e \<Rightarrow> Some (Inl e)
           | Inr tickSpacingNumber \<Rightarrow>
       (let midPrice = tickToPrice currentTick d0 d1;
            indices = uniqueSortedTickIndices currentTick tickSpacingNumber n
        in case multicall_ticks (publicClient params) of
             Inl e \<Rightarrow> Some (Inl e)
           | Inr answer \<Rightarrow>
       (let tickResults = map answer indices;
            fetched = fetchedTicksData tickResults indices
        in case asks_loop fetched currentTick tickSpacingNumber n d0 d1 midPrice
                  (currentTick + tickSpacingNumber) currentActiveLiquidity [] of
             None \<Rightarrow> None
           | Some asks_built \<Rightarrow>
       (case bids_loop fetched currentTick tickSpacingNumber n d0 d1 midPrice
                  currentTick currentActiveLiquidity [] of
             None \<Rightarrow> None
           | Some bids_built \<Rightarrow>
               Some (Inr \<lparr>bids = sort_key (\<lambda>l. - price l) bids_built,
                          asks = sort_key price asks_built,
                          currentMidTick = currentTick,
                          currentMidPrice = midPrice\<rparr>)))))))"

section \<open>Pool resolution\<close>

record PoolResolverParams =
  chainId :: int
  marketAddress :: string
  marketId :: string
  rpcUrl :: "string option"

text \<open>
  Every \<open>throw new Error\<close> of the listener and of the resolver is a constructor. The
  resolver rethrows whatever fails inside its \<open>try\<close> block as one error that carries
  the inner message.
\<close>

datatype resolver_fault =
    CannotConvertToBigInt string
  | PoolAddressNotFound
  | ResolvedAddressInvalid string
  | ContractError string

datatype error =
    RpcUrlNotConfigured int
  | OnChainRequestFailed resolver_fault
  | FailedToFetchTokenDetails string
  | PoolAddressNotSet
  | UnsupportedChainId int
  | UrlRequired
  | TransportError string

text \<open>
  What the chain, the library and the language answer to the listener: the integer that
  \<open>BigInt\<close> makes of a string (none where it throws), the \<open>pool\<close> field of the epoch
  data returned by \<open>getEpoch\<close> (or the message of the rejected read), viem's
  \<open>isAddress\<close>, and the token reads of the pool.
\<close>

record responses =
  BigInt_of :: "string \<Rightarrow> int option"
  getEpoch_pool :: "string + string"
  isAddress :: "string \<Rightarrow> bool"
  read_token0 :: "string + string"
  read_token1 :: "string + string"
  read_decimals :: "string \<Rightarrow> string + int"

definition zeroAddress :: string where
  "zeroAddress = ''0x0000000000000000000000000000000000000000''"

definition RPC_URLS :: "int \<rightharpoonup> string" where
  "RPC_URLS = [1 \<mapsto> ''https://eth.llamarpc.com'',
               42161 \<mapsto> ''https://arbitrum.llamarpc.com'',
               137 \<mapsto> ''https://polygon.llamarpc.com'',
               10 \<mapsto> ''https://optimism.llamarpc.com'']"

text \<open>
  \<open>resolvePoolAddress\<close>, with the contract reads it issues (address and function
  name) beside its outcome. An empty \<open>rpcUrl\<close> is falsy, as a missing one. The argument
  of the read is \<open>BigInt(marketId)\<close>, which is evaluated inside the \<open>try\<close> block before
  the read is issued.
\<close>

definition resolvePoolAddress ::
  "responses \<Rightarrow> PoolResolverParams \<Rightarrow> (string \<times> string) list \<times> (error + string)" where
  "resolvePoolAddress w params =
     (let providedRpcUrl = (case rpcUrl params of
                              None \<Rightarrow> None
                            | Some u \<Rightarrow> if u = [] then None else Some u);
          url = (case providedRpcUrl of
                   None \<Rightarrow> RPC_URLS (chainId params)
                 | Some u \<Rightarrow> Some u)
      in case url of
           None \<Rightarrow> ([], Inl (RpcUrlNotConfigured (chainId params)))
         | Some u \<Rightarrow>
             if u = [] then ([], Inl (RpcUrlNotConfigured (chainId params)))
             else
               (case BigInt_of w (marketId params) of
                  None \<Rightarrow>
                    ([], Inl (OnChainRequestFailed (CannotConvertToBigInt (marketId params))))
                | Some epochId \<Rightarrow>
                    ([(marketAddress params, ''getEpoch'')],
                     (case getEpoch_pool w of
                        Inl msg \<Rightarrow> Inl (OnChainRequestFailed (ContractError msg))
                      | Inr pool \<Rightarrow>
                          if pool = [] then Inl (OnChainRequestFailed PoolAddressNotFound)
                          else if \<not> isAddress w pool \<or> pool = zeroAddress
                          then Inl (OnChainRequestFailed (ResolvedAddressInvalid pool))
                          else Inr pool))))"

section \<open>The market listener\<close>

record Order =
  order_price :: real
  order_size :: int

record SwapEventArgs =
  sender :: string
  recipient :: string
  amount0 :: int
  amount1 :: int
  sqrtPriceX96 :: int
  liquidity :: int
  tick :: int

record Log =
  args :: "SwapEventArgs option"

text \<open>
  The \<open>poolAddress\<close> of a notification is written with a non-null assertion, which
  checks nothing: the field carries whatever the listener holds.
\<close>

record SwapUpdateEvent =
  marketPrice :: "real option"
  orderBook :: "Order list"
  rawSwapArgs :: "SwapEventArgs option"
  poolAddress :: "string option"
  chainId :: int
  marketId :: string
  timestamp :: int

record Chain =
  chain_id :: int
  chain_name :: string
  chain_webSocket :: "string option"

text \<open>
  The chain objects imported from the library, which the source keys by their ids; a
  chain may come with a default websocket url.
\<close>

record ViemChains =
  mainnet :: Chain
  arbitrum :: Chain
  optimism :: Chain
  polygon :: Chain
  base :: Chain
  bsc :: Chain
  goerli :: Chain
  sepolia :: Chain

definition supportedChains :: "ViemChains \<Rightarrow> (int \<rightharpoonup> Chain)" where
  "supportedChains vc =
     [chain_id (mainnet vc) \<mapsto> mainnet vc,
      chain_id (arbitrum vc) \<mapsto> arbitrum vc,
      chain_id (optimism vc) \<mapsto> optimism vc,
      chain_id (polygon vc) \<mapsto> polygon vc,
      chain_id (base vc) \<mapsto> base vc,
      chain_id (bsc vc) \<mapsto> bsc vc,
      chain_id (goerli vc) \<mapsto> goerli vc,
      chain_id (sepolia vc) \<mapsto> sepolia vc]"

text \<open>
  What the listener does to the outside: contract reads, subscriptions with the handle
  that cancels them, and the notifications it emits. A notification is recorded whether
  or not a consumer has registered for it.
\<close>

datatype effect =
    ReadContract string string
  | WatchContractEvent "string option" nat
  | Unwatch nat
  | Emit_swap SwapUpdateEvent
  | Emit_error error

text \<open>
  The fields of the class. \<open>transportWsUrl\<close> is the url the client's transport was
  made with, \<open>unwatch\<close> the handle of the subscription, and \<open>trace\<close> is not a field of
  the source: it records the effects of the listener so far, oldest first.
\<close>

record MarketListener =
  transportWsUrl :: "string option"
  poolAddress :: "string option"
  unwatch :: "nat option"
  marketPrice :: "real option"
  orderBook :: "Order list"
  opts :: PoolResolverParams
  selectedChain :: Chain
  token0Address :: "string option"
  token1Address :: "string option"
  token0Decimals :: "int option"
  token1Decimals :: "int option"
  trace :: "effect list"

text \<open>
  The constructor: the notifications emitted while constructing, and either the error
  thrown or the new listener. The transport of the library is made with the url of the
  options when that is a websocket url, else with the default of the chain, and making
  the client throws when there is neither.
\<close>

definition constructor ::
  "ViemChains \<Rightarrow> PoolResolverParams \<Rightarrow> effect list \<times> (error + MarketListener)" where
  "constructor vc options =
     (case supportedChains vc (PoolResolverParams.chainId options) of
        None \<Rightarrow> ([], Inl (UnsupportedChainId (PoolResolverParams.chainId options)))
      | Some ch \<Rightarrow>
          (let wsUrl = (case rpcUrl options of
                          None \<Rightarrow> None
                        | Some u \<Rightarrow> if take 6 u = ''wss://'' then Some u else None);
               url = (case wsUrl of None \<Rightarrow> chain_webSocket ch | Some u \<Rightarrow> Some u)
           in if url = None \<or> url = Some []
              then ([], Inl UrlRequired)
              else
                ([], Inr \<lparr>transportWsUrl = wsUrl,
                          poolAddress = None,
                          unwatch = None,
                          marketPrice = None,
                          orderBook = [],
                          opts = options,
                          selectedChain = ch,
                          token0Address = None,
                          token1Address = None,
                          token0Decimals = None,
                          token1Decimals = None,
                          trace = []\<rparr>)))"

text \<open>
  \<open>start\<close> is asynchronous: it runs up to an \<open>await\<close>, and goes on when the awaited
  promise settles. The places where it waits are the resolution of the pool address, the
  two token address reads and the two decimals reads (whose token addresses were fixed
  when the reads were issued).
\<close>

datatype pc = AwaitResolve | AwaitTokenAddresses | AwaitDecimals string string

datatype outcome = Pending pc | Resolved | Rejected error

text \<open>\<open>Promise.all\<close> of two reads: both values, or the message of a rejected one.\<close>

definition promise_all :: "string + 'a \<Rightarrow> string + 'b \<Rightarrow> string + ('a \<times> 'b)" where
  "promise_all r0 r1 =
     (case r0 of
        Inl msg \<Rightarrow> Inl msg
      | Inr v0 \<Rightarrow> (case r1 of Inl msg \<Rightarrow> Inl msg | Inr v1 \<Rightarrow> Inr (v0, v1)))"

definition reads :: "(string \<times> string) list \<Rightarrow> effect list" where
  "reads calls = map (\<lambda>(address, functionName). ReadContract address functionName) calls"

text \<open>The \<open>catch\<close> block of \<open>start\<close>: emit the error, then throw it.\<close>

definition start_catch :: "error \<Rightarrow> MarketListener \<Rightarrow> outcome \<times> MarketListener" where
  "start_catch err st = (Rejected err, st\<lparr>trace := trace st @ [Emit_error err]\<rparr>)"

text \<open>From the call of \<open>start\<close> to its first \<open>await\<close>.\<close>

definition start_enter :: "responses \<Rightarrow> MarketListener \<Rightarrow> outcome \<times> MarketListener" where
  "start_enter w st =
     (if unwatch st \<noteq> None then (Resolved, st)
      else (Pending AwaitResolve,
            st\<lparr>trace := trace st @ reads (fst (resolvePoolAddress w (opts st)))\<rparr>))"

text \<open>The number of subscriptions opened so far names the next handle.\<close>

definition next_handle :: "effect list \<Rightarrow> nat" where
  "next_handle tr = length (filter (\<lambda>e. case e of WatchContractEvent a h \<Rightarrow> True | _ \<Rightarrow> False) tr)"

text \<open>From one \<open>await\<close> of \<open>start\<close> to the next, or to its end.\<close>

definition start_resume :: "responses \<Rightarrow> pc \<Rightarrow> MarketListener \<Rightarrow> outcome \<times> MarketListener" where
  "start_resume w wp st =
     (case wp of
        AwaitResolve \<Rightarrow>
          (case snd (resolvePoolAddress w (opts st)) of
             Inl err \<Rightarrow> start_catch err st
           | Inr resolved \<Rightarrow>
               (let st1 = st\<lparr>poolAddress := Some resolved\<rparr>
                in case poolAddress st1 of
                     None \<Rightarrow> start_catch PoolAddressNotSet st1
                   | Some pa \<Rightarrow>
                       if pa = [] then start_catch PoolAddressNotSet st1
                       else (Pending AwaitTokenAddresses,
                             st1\<lparr>trace := trace st1 @
                                    reads [(pa, ''token0''), (pa, ''token1'')]\<rparr>)))
      | AwaitTokenAddresses \<Rightarrow>
          (case promise_all (read_token0 w) (read_token1 w) of
             Inl msg \<Rightarrow> start_catch (FailedToFetchTokenDetails msg) st
           | Inr (token0Addr, token1Addr) \<Rightarrow>
               (Pending (AwaitDecimals token0Addr token1Addr),
                st\<lparr>token0Address := Some token0Addr,
                   token1Address := Some token1Addr,
                   trace := trace st @
                     reads [(token0Addr, ''decimals''), (token1Addr, ''decimals'')]\<rparr>))
      | AwaitDecimals token0Addr token1Addr \<Rightarrow>
          (case promise_all (read_decimals w token0Addr) (read_decimals w token1Addr) of
             Inl msg \<Rightarrow> start_catch (FailedToFetchTokenDetails msg) st
           | Inr (token0Dec, token1Dec) \<Rightarrow>
               (let st1 = st\<lparr>token0Decimals := Some token0Dec,
                              token1Decimals := Some token1Dec\<rparr>;
                    h = next_handle (trace st1)
                in (Resolved,
                    st1\<lparr>unwatch := Some h,
                        trace := trace st1 @ [WatchContractEvent (poolAddress st1) h]\<rparr>))))"

text \<open>A call that waits is resumed until it settles, while nothing else runs.\<close>

definition settle :: "responses \<Rightarrow> pc \<Rightarrow> MarketListener \<Rightarrow> outcome \<times> MarketListener" where
  "settle w at0 st0 =
     (case start_resume w at0 st0 of
        (Pending at1, st1) \<Rightarrow>
          (case start_resume w at1 st1 of
             (Pending at2, st2) \<Rightarrow> start_resume w at2 st2
           | done2 \<Rightarrow> done2)
      | done1 \<Rightarrow> done1)"

text \<open>A call of \<open>start\<close> that is awaited while nothing else runs.\<close>

definition start :: "responses \<Rightarrow> MarketListener \<Rightarrow> outcome \<times> MarketListener" where
  "start w st =
     (case start_enter w st of
        (Pending at0, st0) \<Rightarrow> settle w at0 st0
      | done0 \<Rightarrow> done0)"

text \<open>
  The body of \<open>onLogs\<close> for one log, with the reading of the clock taken while it is
  processed; a log without arguments, or one that arrives before the decimals are known,
  changes nothing.
\<close>

definition process_log :: "int \<Rightarrow> Log \<Rightarrow> MarketListener \<Rightarrow> MarketListener" where
  "process_log now lg st =
     (case (args lg, token0Decimals st, token1Decimals st) of
        (Some swapArgs, Some d0, Some d1) \<Rightarrow>
          (let priceBase = (real_of_int (sqrtPriceX96 swapArgs) / 2 ^ 96) ^ 2;
               st1 = st\<lparr>marketPrice := Some (priceBase * 10 powi (d0 - d1))\<rparr>;
               st2 = st1\<lparr>orderBook := []\<rparr>;
               eventData =
                 \<lparr>SwapUpdateEvent.marketPrice = marketPrice st2,
                  SwapUpdateEvent.orderBook = orderBook st2,
                  rawSwapArgs = Some swapArgs,
                  SwapUpdateEvent.poolAddress = poolAddress st2,
                  SwapUpdateEvent.chainId = chain_id (selectedChain st2),
                  SwapUpdateEvent.marketId = PoolResolverParams.marketId (opts st2),
                  timestamp = now\<rparr>
           in st2\<lparr>trace := trace st2 @ [Emit_swap eventData]\<rparr>)
      | _ \<Rightarrow> st)"

fun onLogs :: "(int \<times> Log) list \<Rightarrow> MarketListener \<Rightarrow> MarketListener" where
  "onLogs [] st = st"
| "onLogs ((now, lg) # logs) st = onLogs logs (process_log now lg st)"

definition onError :: "string \<Rightarrow> MarketListener \<Rightarrow> MarketListener" where
  "onError msg st = st\<lparr>trace := trace st @ [Emit_error (TransportError msg)]\<rparr>"

definition stop :: "MarketListener \<Rightarrow> MarketListener" where
  "stop st =
     (case unwatch st of
        Some h \<Rightarrow> st\<lparr>unwatch := None, trace := trace st @ [Unwatch h]\<rparr>
      | None \<Rightarrow> st)"

definition getMarketPrice :: "MarketListener \<Rightarrow> real option" where
  "getMarketPrice st = marketPrice st"

definition getOrderBook :: "MarketListener \<Rightarrow> Order list" where
  "getOrderBook st = orderBook st"

text \<open>
  The states a listener can be in: made by the constructor, then changed by calls of
  \<open>start\<close> (entered, and resumed whenever a promise settles, with whatever the outside
  answers at that moment), by deliveries of logs and transport errors, and by \<open>stop\<close>.
\<close>

inductive reachable :: "MarketListener \<Rightarrow> bool" where
  constructed: "constructor vc options = (es, Inr st) \<Longrightarrow> reachable st"
| entered: "reachable st \<Longrightarrow> reachable (snd (start_enter w st))"
| resumed: "reachable st \<Longrightarrow> reachable (snd (start_resume w wp st))"
| logs_delivered: "reachable st \<Longrightarrow> reachable (onLogs logs st)"
| error_delivered: "reachable st \<Longrightarrow> reachable (onError msg st)"
| stopped: "reachable st \<Longrightarrow> reachable (stop st)"

section \<open>The running liquidity of the walks, in closed form\<close>








section \<open>Concrete pools\<close>

text \<open>
  A pool at tick 0 with spacing 60 and a flat active liquidity of 1000000, none of whose
  ticks is initialized; both tokens have 18 decimals and two ticks are asked per side.
\<close>

definition flat_client :: PublicClient where
  "flat_client =
     \<lparr>read_slot0 = Inr (2 ^ 96, 0, 0, 1, 1, 0, True),
      read_liquidity = Inr 1000000,
      read_tickSpacing = Inr 60,
      multicall_ticks = Inr (\<lambda>t. Success (0, 0, 0, 0, 0, 0, 0, False))\<rparr>"

definition flat_params :: FetchOrderBookParams where
  "flat_params =
     \<lparr>publicClient = flat_client,
      FetchOrderBookParams.poolAddress = ''0x8ad599c3A0ff1De082011EFDDc58f1908eb6e6D8'',
      FetchOrderBookParams.token0Decimals = 18,
      FetchOrderBookParams.token1Decimals = 18,
      ticksToQueryPerSide = Some 2\<rparr>"

text \<open>
  A pool at tick 120 with spacing 60 and an active liquidity of \<open>500000000 * 2 ^ 96\<close>,
  whose ticks 120 and 60 are initialized with nets that drive the running liquidity of
  the downward walk below zero; the read of tick 180 fails. Both tokens have 6 decimals
  and the window has its default size.
\<close>

definition deep_answer :: "int \<Rightarrow> multicall_result" where
  "deep_answer t =
     (if t = 120 then Success (7, 900000000 * 2 ^ 96, 0, 0, 0, 0, 0, True)
      else if t = 60 then Success (7, 2 ^ 127, 0, 0, 0, 0, 0, True)
      else if t = 180 then Failure ''execution reverted''
      else Success (0, 0, 0, 0, 0, 0, 0, False))"

definition deep_client :: PublicClient where
  "deep_client =
     \<lparr>read_slot0 = Inr (2 ^ 96, 120, 0, 1, 1, 0, True),
      read_liquidity = Inr (500000000 * 2 ^ 96),
      read_tickSpacing = Inr 60,
      multicall_ticks = Inr deep_answer\<rparr>"

definition deep_params :: FetchOrderBookParams where
  "deep_params =
     \<lparr>publicClient = deep_client,
      FetchOrderBookParams.poolAddress = ''0x8ad599c3A0ff1De082011EFDDc58f1908eb6e6D8'',
      FetchOrderBookParams.token0Decimals = 6,
      FetchOrderBookParams.token1Decimals = 6,
      ticksToQueryPerSide = None\<rparr>"

section \<open>What holds of every state of a listener\<close>

text \<open>
  The contract functions the listener reads, and the property that is kept by every
  step: the stored book is empty, so is the book of every swap notification, only those
  functions are read, and a listener with a subscription knows both decimals.
\<close>

definition listener_reads :: "string set" where
  "listener_reads = {''getEpoch'', ''token0'', ''token1'', ''decimals''}"

definition quiet :: "MarketListener \<Rightarrow> bool" where
  "quiet st \<longleftrightarrow>
     orderBook st = []
     \<and> (\<forall>ev. Emit_swap ev \<in> set (trace st) \<longrightarrow> SwapUpdateEvent.orderBook ev = [])
     \<and> (\<forall>a f. ReadContract a f \<in> set (trace st) \<longrightarrow> f \<in> listener_reads)
     \<and> (unwatch st \<noteq> None \<longrightarrow> token0Decimals st \<noteq> None \<and> token1Decimals st \<noteq> None)"

section \<open>What a consumer observes\<close>


fun opened :: "effect list \<Rightarrow> nat list" where
  "opened [] = []"
| "opened (WatchContractEvent a h # es) = h # opened es"
| "opened (e # es) = opened es"

section \<open>Concrete listeners\<close>

text \<open>
  The chains of the library by their published ids and names, none of them with a default
  websocket url; the options name a websocket endpoint.
\<close>

definition viem_chains :: ViemChains where
  "viem_chains =
     \<lparr>mainnet = \<lparr>chain_id = 1, chain_name = ''Ethereum'', chain_webSocket = None\<rparr>,
      arbitrum = \<lparr>chain_id = 42161, chain_name = ''Arbitrum One'', chain_webSocket = None\<rparr>,
      optimism = \<lparr>chain_id = 10, chain_name = ''OP Mainnet'', chain_webSocket = None\<rparr>,
      polygon = \<lparr>chain_id = 137, chain_name = ''Polygon'', chain_webSocket = None\<rparr>,
      base = \<lparr>chain_id = 8453, chain_name = ''Base'', chain_webSocket = None\<rparr>,
      bsc = \<lparr>chain_id = 56, chain_name = ''BNB Smart Chain'', chain_webSocket = None\<rparr>,
      goerli = \<lparr>chain_id = 5, chain_name = ''Goerli'', chain_webSocket = None\<rparr>,
      sepolia = \<lparr>chain_id = 11155111, chain_name = ''Sepolia'', chain_webSocket = None\<rparr>\<rparr>"

definition mainnet_opts :: PoolResolverParams where
  "mainnet_opts =
     \<lparr>PoolResolverParams.chainId = 1,
      marketAddress = ''0x1F98431c8aD98523631AE4a59f267346ea31F984'',
      PoolResolverParams.marketId = ''1'',
      rpcUrl = Some ''wss://ethereum-rpc.publicnode.com''\<rparr>"


text \<open>The listener the constructor makes for \<open>mainnet_opts\<close>.\<close>

definition created :: MarketListener where
  "created =
     \<lparr>transportWsUrl = Some ''wss://ethereum-rpc.publicnode.com'',
      poolAddress = None,
      unwatch = None,
      marketPrice = None,
      orderBook = [],
      opts = mainnet_opts,
      selectedChain = \<lparr>chain_id = 1, chain_name = ''Ethereum'', chain_webSocket = None\<rparr>,
      token0Address = None,
      token1Address = None,
      token0Decimals = None,
      token1Decimals = None,
      trace = []\<rparr>"

text \<open>An outside whose reads all succeed, and one whose registry returns the zero address.\<close>

definition good_world :: responses where
  "good_world =
     \<lparr>BigInt_of = (\<lambda>s. if s = ''1'' then Some 1 else None),
      getEpoch_pool = Inr ''0x8ad599c3A0ff1De082011EFDDc58f1908eb6e6D8'',
      isAddress = (\<lambda>a. length a = 42 \<and> take 2 a = ''0x''),
      read_token0 = Inr ''0xA0b86991c6218b36c1d19D4a2e9Eb0cE3606eB48'',
      read_token1 = Inr ''0xC02aaA39b223FE8D0A0e5C4F27eAD9083C756Cc2'',
      read_decimals = (\<lambda>a. Inr 18)\<rparr>"


definition unit_swap :: Log where
  "unit_swap =
     \<lparr>args = Some \<lparr>sender = ''0xE592427A0AEce92De3Edee1F18E0157C05861564'',
                    recipient = ''0xE592427A0AEce92De3Edee1F18E0157C05861564'',
                    amount0 = 1000, amount1 = - 1000,
                    sqrtPriceX96 = 2 ^ 96, liquidity = 1000000, tick = 0\<rparr>\<rparr>"

section \<open>Properties of the price arithmetic\<close>


lemma tickToPrice_less:
  assumes "t < u"
  shows "tickToPrice u d0 d1 < tickToPrice t d0 d1"
proof -
  have base: "(1::real) < 10001 / 10000" by simp
  have "(10001 / 10000 :: real) powi t < (10001 / 10000) powi u"
    using assms base by (rule power_int_strict_increasing)
  moreover have "(0::real) < (10001 / 10000) powi t" by simp
  ultimately have "1 / ((10001 / 10000 :: real) powi u) < 1 / ((10001 / 10000) powi t)"
    by (simp add: frac_less2)
  moreover have "(0::real) < 10 powi (d0 - d1)" by simp
  ultimately show ?thesis
    unfolding tickToPrice_def Let_def by (rule mult_strict_right_mono)
qed

lemma tickToPrice_less_iff: "tickToPrice u d0 d1 < tickToPrice t d0 d1 \<longleftrightarrow> t < u"
proof
  assume lt: "tickToPrice u d0 d1 < tickToPrice t d0 d1"
  show "t < u"
  proof (rule ccontr)
    assume "\<not> t < u"
    then consider "u < t" | "u = t" by linarith
    then show False
    proof cases
      case 1
      from tickToPrice_less [OF 1, of d0 d1] lt show False by simp
    next
      case 2
      with lt show False by simp
    qed
  qed
next
  assume "t < u"
  then show "tickToPrice u d0 d1 < tickToPrice t d0 d1" by (rule tickToPrice_less)
qed

section \<open>The sampled tick indices\<close>

lemma push_below_eq:
  "push_below c s n i acc = acc @ map (\<lambda>k. c - k * s) [i..n]"
proof (induction c s n i acc rule: push_below.induct)
  case (1 c s n i acc)
  show ?case
  proof (cases "i \<le> n")
    case True
    then have "[i..n] = i # [i + 1..n]" by (rule upto_rec1)
    with True 1 show ?thesis by (subst push_below.simps) simp
  next
    case False
    then show ?thesis by (subst push_below.simps) simp
  qed
qed

lemma push_above_eq:
  "push_above c s n i acc = acc @ map (\<lambda>k. c + k * s) [i..n]"
proof (induction c s n i acc rule: push_above.induct)
  case (1 c s n i acc)
  show ?case
  proof (cases "i \<le> n")
    case True
    then have "[i..n] = i # [i + 1..n]" by (rule upto_rec1)
    with True 1 show ?thesis by (subst push_above.simps) simp
  next
    case False
    then show ?thesis by (subst push_above.simps) simp
  qed
qed

lemma tickIndicesToQuery_eq:
  "tickIndicesToQuery c s n = map (\<lambda>k. c - k * s) [0..n] @ map (\<lambda>k. c + k * s) [1..n]"
  by (simp add: tickIndicesToQuery_def push_below_eq push_above_eq)

lemma set_uniq: "set (uniq xs) = set xs"
  by (induction xs rule: uniq.induct) auto

lemma distinct_uniq: "distinct (uniq xs)"
  by (induction xs rule: uniq.induct) (auto simp: set_uniq)

lemma set_tickIndicesToQuery:
  "set (tickIndicesToQuery c s n) = (\<lambda>k. c + k * s) ` {- n..n}"
proof -
  have "(\<lambda>k. c - k * s) ` {0..n} = (\<lambda>k. c + k * s) ` {- n..0}"
  proof (intro set_eqI iffI)
    fix x assume "x \<in> (\<lambda>k. c - k * s) ` {0..n}"
    then obtain k where "0 \<le> k" "k \<le> n" "x = c - k * s" by auto
    then have "x = c + (- k) * s" "- k \<in> {- n..0}" by auto
    then show "x \<in> (\<lambda>k. c + k * s) ` {- n..0}" by blast
  next
    fix x assume "x \<in> (\<lambda>k. c + k * s) ` {- n..0}"
    then obtain k where "- n \<le> k" "k \<le> 0" "x = c + k * s" by auto
    then have "x = c - (- k) * s" "- k \<in> {0..n}" by auto
    then show "x \<in> (\<lambda>k. c - k * s) ` {0..n}" by blast
  qed
  then have "set (tickIndicesToQuery c s n) = (\<lambda>k. c + k * s) ` ({- n..0} \<union> {1..n})"
    by (simp add: tickIndicesToQuery_eq image_Un)
  moreover have "{- n..0} \<union> {1..n} = {- n..n}" by auto
  ultimately show ?thesis by (simp only:)
qed

lemma uniqueSortedTickIndices_eq:
  assumes "0 < s"
  shows "uniqueSortedTickIndices c s n = map (\<lambda>k. c + k * s) [- n..n]"
proof (rule sorted_distinct_set_unique)
  show "sorted (uniqueSortedTickIndices c s n)"
    by (simp add: uniqueSortedTickIndices_def)
  show "distinct (uniqueSortedTickIndices c s n)"
    by (simp add: uniqueSortedTickIndices_def distinct_uniq)
  have "sorted_wrt (\<lambda>x y. c + x * s \<le> c + y * s) [- n..n]"
    by (rule sorted_wrt_mono_rel [OF _ sorted_upto]) (use assms in \<open>simp add: mult_right_mono\<close>)
  then show "sorted (map (\<lambda>k. c + k * s) [- n..n])"
    by (simp only: sorted_map)
  have "inj (\<lambda>k. c + k * s)" using assms by (auto intro!: injI)
  then show "distinct (map (\<lambda>k. c + k * s) [- n..n])"
    by (simp add: distinct_map inj_on_def)
  show "set (uniqueSortedTickIndices c s n) = set (map (\<lambda>k. c + k * s) [- n..n])"
    by (simp add: uniqueSortedTickIndices_def set_uniq set_tickIndicesToQuery)
qed

section \<open>The two walks and the book they give\<close>

lemma asks_loop_above:
  assumes "0 < s" and "c < T"
  shows "asks_loop f c s n d0 d1 (tickToPrice c d0 d1) T L acc = Some acc"
  using assms(2)
proof (induction "nat (c + n * s - T + 1)" arbitrary: T L rule: less_induct)
  case less
  show ?case
  proof (cases "T \<le> c + n * s")
    case False
    then show ?thesis by (subst asks_loop.simps) simp
  next
    case True
    have nolt: "\<not> tickToPrice c d0 d1 < tickToPrice T d0 d1"
      using less.prems by (simp add: tickToPrice_less_iff)
    have step: "asks_loop f c s n d0 d1 (tickToPrice c d0 d1) (T + s) L' acc = Some acc" for L'
      by (rule less.hyps) (use assms(1) True less.prems in auto)
    show ?thesis
      by (subst asks_loop.simps) (simp add: True nolt step Let_def)
  qed
qed

lemma bids_loop_below:
  assumes "0 < s" and "T < c"
  shows "bids_loop f c s n d0 d1 (tickToPrice c d0 d1) T L acc = Some acc"
  using assms(2)
proof (induction "nat (T - (c - n * s) + 1)" arbitrary: T L rule: less_induct)
  case less
  show ?case
  proof (cases "T \<ge> c - n * s")
    case False
    then show ?thesis by (subst bids_loop.simps) simp
  next
    case True
    have nolt: "\<not> tickToPrice T d0 d1 < tickToPrice c d0 d1"
      using less.prems by (simp add: tickToPrice_less_iff)
    have ne: "T \<noteq> c" using less.prems by simp
    have step: "bids_loop f c s n d0 d1 (tickToPrice c d0 d1) (T - s) L' acc = Some acc" for L'
      by (rule less.hyps) (use assms(1) True less.prems in auto)
    show ?thesis
      by (subst bids_loop.simps) (simp add: True nolt ne step Let_def)
  qed
qed

lemma bids_loop_start:
  assumes "0 < s"
  shows "bids_loop f c s n d0 d1 (tickToPrice c d0 d1) c L acc =
           Some (if 0 \<le> n
                 then acc @ [\<lparr>price = tickToPrice c d0 d1, amountToken0 = amountPlaceholder L d0\<rparr>]
                 else acc)"
proof (cases "0 \<le> n")
  case True
  then have ge: "c \<ge> c - n * s" using assms by simp
  have "c - s < c" using assms by simp
  note rest = bids_loop_below [OF assms this]
  show ?thesis
    by (subst bids_loop.simps) (simp add: ge True rest Let_def)
next
  case False
  then have "n * s < 0" using assms by (simp add: mult_neg_pos)
  then have "\<not> c \<ge> c - n * s" by simp
  then show ?thesis using False by (subst bids_loop.simps) simp
qed

lemma fetch_book:
  assumes slot0: "read_slot0 (publicClient p) = Inr sl"
    and liq: "read_liquidity (publicClient p) = Inr L"
    and sp: "read_tickSpacing (publicClient p) = Inr s"
    and mc: "multicall_ticks (publicClient p) = Inr answer"
    and pos: "0 < s"
  shows "fetchAndCalculateOrderBook p =
           Some (Inr \<lparr>bids = (if 0 \<le> ticksPerSide p
                              then [\<lparr>price = tickToPrice (fst (snd sl)) (FetchOrderBookParams.token0Decimals p) (FetchOrderBookParams.token1Decimals p),
                                     amountToken0 = amountPlaceholder L (FetchOrderBookParams.token0Decimals p)\<rparr>]
                              else []),
                      asks = [],
                      currentMidTick = fst (snd sl),
                      currentMidPrice = tickToPrice (fst (snd sl)) (FetchOrderBookParams.token0Decimals p) (FetchOrderBookParams.token1Decimals p)\<rparr>)"
proof -
  have "fst (snd sl) < fst (snd sl) + s" using pos by simp
  note a = asks_loop_above [OF pos this]
  note b = bids_loop_start [OF pos]
  show ?thesis
    unfolding fetchAndCalculateOrderBook_def Let_def
    by (simp add: slot0 liq sp mc a b)
qed

section \<open>What the walks and the store do\<close>

lemma amountPlaceholder_nonneg: "0 \<le> L \<Longrightarrow> 0 \<le> amountPlaceholder L d0"
proof -
  assume "0 \<le> L"
  then have "0 \<le> L sdiv Q96"
    by (simp add: signed_divide_int_def Q96_def sgn_if pos_imp_zdiv_nonneg_iff)
  moreover have "(0::real) < 100 * 10 powi d0" by simp
  ultimately show ?thesis
    unfolding amountPlaceholder_def by (simp add: divide_nonneg_pos)
qed

lemma flat_book:
  "fetchAndCalculateOrderBook flat_params =
     Some (Inr \<lparr>bids = [\<lparr>price = 1, amountToken0 = 0\<rparr>], asks = [],
                currentMidTick = 0, currentMidPrice = 1\<rparr>)"
proof -
  have amount: "amountPlaceholder 1000000 18 = 0"
    by (simp add: amountPlaceholder_def signed_divide_int_def Q96_def)
  have mid: "tickToPrice 0 18 18 = 1"
    by (simp add: tickToPrice_def)
  show ?thesis
    using fetch_book [of flat_params "(2 ^ 96, 0, 0, 1, 1, 0, True)" 1000000 60
        "\<lambda>t. Success (0, 0, 0, 0, 0, 0, 0, False)"]
    by (simp add: flat_params_def flat_client_def ticksPerSide_def amount mid)
qed













lemma deep_book:
  "fetchAndCalculateOrderBook deep_params =
     Some (Inr \<lparr>bids = [\<lparr>price = tickToPrice 120 6 6, amountToken0 = 5\<rparr>], asks = [],
                currentMidTick = 120, currentMidPrice = tickToPrice 120 6 6\<rparr>)"
proof -
  show ?thesis
    using fetch_book [of deep_params "(2 ^ 96, 120, 0, 1, 1, 0, True)" "500000000 * 2 ^ 96" 60
        deep_answer]
    by (simp add: deep_params_def deep_client_def ticksPerSide_def amountPlaceholder_def
        signed_divide_int_def Q96_def)
qed


section \<open>The walks against the closed form\<close>



















section \<open>Claims about the order-book builder\<close>

text \<open>
  Claim C1, as amended. For the pool at tick 0 with spacing 60, active liquidity 1000000,
  no initialized tick, 18 decimals on both sides and two ticks per side, the builder
  returns a book with mid tick 0 and mid price 1. Every ask it lists is at the price of
  tick 60 or 120, every bid at the price of tick 0, -60 or -120, and the level of tick 0
  is listed. The depth of every level is the placeholder amount of the flat active
  liquidity, which is 0 here: non-negative and the same on every level, not positive.
\<close>

theorem flat_pool_book:
  "\<exists>ob. fetchAndCalculateOrderBook flat_params = Some (Inr ob)
        \<and> currentMidTick ob = 0 \<and> currentMidPrice ob = 1
        \<and> set (map price (asks ob)) \<subseteq> {tickToPrice 60 18 18, tickToPrice 120 18 18}
        \<and> set (map price (bids ob)) \<subseteq>
              {tickToPrice 0 18 18, tickToPrice (- 60) 18 18, tickToPrice (- 120) 18 18}
        \<and> tickToPrice 0 18 18 \<in> set (map price (bids ob))
        \<and> set (map amountToken0 (bids ob @ asks ob)) \<subseteq> {amountPlaceholder 1000000 18}
        \<and> amountPlaceholder 1000000 18 = 0"
proof -
  have amount: "amountPlaceholder 1000000 18 = 0"
    by (simp add: amountPlaceholder_def signed_divide_int_def Q96_def)
  have mid: "tickToPrice 0 18 18 = 1"
    by (simp add: tickToPrice_def)
  show ?thesis
    by (simp add: flat_book amount mid)
qed

text \<open>
  Claim C1 as it is written fails on this pool: the book has no ask at all, its only bid
  is the level of tick 0, and the depth of that level is 0.
\<close>

theorem flat_pool_book_counterexample:
  "fetchAndCalculateOrderBook flat_params =
     Some (Inr \<lparr>bids = [\<lparr>price = 1, amountToken0 = 0\<rparr>], asks = [],
                currentMidTick = 0, currentMidPrice = 1\<rparr>)"
  by (rule flat_book)

text \<open>
  Claim C2, as amended. With a positive tick spacing and successful reads the builder
  returns a book in which every bid's price is at most the mid price (the level of the
  current tick has the mid price itself), every ask's price is strictly above the mid
  price, the bids are strictly descending and the asks strictly ascending by price.
\<close>

theorem book_sides_ordered:
  assumes "read_slot0 (publicClient p) = Inr sl"
    and "read_liquidity (publicClient p) = Inr L"
    and "read_tickSpacing (publicClient p) = Inr s"
    and "multicall_ticks (publicClient p) = Inr answer"
    and "0 < s"
  shows "\<exists>ob. fetchAndCalculateOrderBook p = Some (Inr ob)
          \<and> (\<forall>b \<in> set (bids ob). price b \<le> currentMidPrice ob)
          \<and> (\<forall>a \<in> set (asks ob). price a > currentMidPrice ob)
          \<and> sorted_wrt (>) (map price (bids ob))
          \<and> sorted_wrt (<) (map price (asks ob))"
  by (simp add: fetch_book [OF assms])

theorem book_sides_ordered_witness:
  "\<exists>ob. fetchAndCalculateOrderBook deep_params = Some (Inr ob)
          \<and> (\<forall>b \<in> set (bids ob). price b \<le> currentMidPrice ob)
          \<and> (\<forall>a \<in> set (asks ob). price a > currentMidPrice ob)
          \<and> sorted_wrt (>) (map price (bids ob))
          \<and> sorted_wrt (<) (map price (asks ob))"
  by (rule book_sides_ordered [where s = 60]) (simp_all add: deep_params_def deep_client_def)

text \<open>
  Claim C2 as it is written asks for every bid to be strictly below the mid price. The
  pool at tick 120 has a bid whose price is the mid price.
\<close>

theorem bid_at_mid_price_counterexample:
  "fetchAndCalculateOrderBook deep_params =
     Some (Inr \<lparr>bids = [\<lparr>price = tickToPrice 120 6 6, amountToken0 = 5\<rparr>], asks = [],
                currentMidTick = 120, currentMidPrice = tickToPrice 120 6 6\<rparr>)
   \<and> \<not> tickToPrice 120 6 6 < tickToPrice 120 6 6"
  by (simp add: deep_book)

text \<open>
  Claim C4. With a positive tick spacing, successful reads and a non-negative active
  liquidity, the builder returns a book in which the depth of every bid and of every ask
  is at least 0, whatever nets the sampled ticks carry.
\<close>

theorem depth_nonneg:
  assumes "read_slot0 (publicClient p) = Inr sl"
    and "read_liquidity (publicClient p) = Inr L"
    and "read_tickSpacing (publicClient p) = Inr s"
    and "multicall_ticks (publicClient p) = Inr answer"
    and "0 < s" and "0 \<le> L"
  shows "\<exists>ob. fetchAndCalculateOrderBook p = Some (Inr ob)
          \<and> (\<forall>l \<in> set (bids ob) \<union> set (asks ob). 0 \<le> amountToken0 l)"
  using assms(6) by (simp add: fetch_book [OF assms(1-5)] amountPlaceholder_nonneg)

theorem depth_nonneg_witness:
  "\<exists>ob. fetchAndCalculateOrderBook deep_params = Some (Inr ob)
          \<and> (\<forall>l \<in> set (bids ob) \<union> set (asks ob). 0 \<le> amountToken0 l)"
  by (rule depth_nonneg [where s = 60 and L = "500000000 * 2 ^ 96"])
     (simp_all add: deep_params_def deep_client_def)



text \<open>
  Claim C8. For every center tick, every positive spacing and every window size \<open>n\<close>, the
  indices the builder asks for are the progression from \<open>c - n * s\<close> to \<open>c + n * s\<close> in
  steps of \<open>s\<close>, strictly ascending, \<open>2 * n + 1\<close> of them; the window size is 50 when
  the caller gives none.
\<close>

theorem sampled_indices_progression:
  assumes "0 < s"
  shows "uniqueSortedTickIndices c s n = map (\<lambda>i. c + i * s) [- n..n]
       \<and> sorted_wrt (<) (uniqueSortedTickIndices c s n)
       \<and> length (uniqueSortedTickIndices c s n) = nat (2 * n + 1)
       \<and> ticksPerSide (p\<lparr>ticksToQueryPerSide := None\<rparr>) = 50
       \<and> ticksPerSide (p\<lparr>ticksToQueryPerSide := Some n\<rparr>) = n"
proof -
  have "sorted_wrt (<) (uniqueSortedTickIndices c s n)"
    by (simp add: strict_sorted_iff uniqueSortedTickIndices_def distinct_uniq)
  moreover have "length (uniqueSortedTickIndices c s n) = nat (2 * n + 1)"
    by (simp add: uniqueSortedTickIndices_eq [OF assms])
  ultimately show ?thesis
    by (simp add: uniqueSortedTickIndices_eq [OF assms] ticksPerSide_def)
qed

theorem sampled_indices_progression_witness:
  "uniqueSortedTickIndices 0 60 2 = [- 120, - 60, 0, 60, 120]
     \<and> length (uniqueSortedTickIndices 0 60 2) = 5
     \<and> ticksPerSide (flat_params\<lparr>ticksToQueryPerSide := None\<rparr>) = 50"
proof -
  have "[- 2..2] = [- 2, - 1, 0, 1, 2 :: int]"
    by (simp add: upto.simps)
  then show ?thesis
    using sampled_indices_progression [of 60 0 2 flat_params] by simp
qed

section \<open>Steps of the listener\<close>






lemma start_guard: "unwatch st \<noteq> None \<Longrightarrow> start w st = (Resolved, st)"
  by (simp add: start_def start_enter_def)

lemma start_enter_Pending:
  assumes "start_enter w st = (Pending wp, st')"
  shows "unwatch st = None \<and> wp = AwaitResolve
       \<and> st' = st\<lparr>trace := trace st @ reads (fst (resolvePoolAddress w (opts st)))\<rparr>"
  using assms by (auto simp: start_enter_def split: if_splits)

lemma start_enter_not_Rejected: "start_enter w st \<noteq> (Rejected err, st')"
  by (auto simp: start_enter_def)



lemma start_resume_Resolved:
  assumes "start_resume w wp st = (Resolved, st')"
  shows "unwatch st' \<noteq> None \<and> token0Decimals st' \<noteq> None \<and> token1Decimals st' \<noteq> None"
proof (cases wp)
  case AwaitResolve
  with assms show ?thesis
    by (auto simp: start_resume_def start_catch_def Let_def split: sum.splits if_splits)
next
  case AwaitTokenAddresses
  with assms show ?thesis
    by (auto simp: start_resume_def start_catch_def split: sum.splits prod.splits)
next
  case (AwaitDecimals a0 a1)
  with assms show ?thesis
    by (auto simp: start_resume_def start_catch_def Let_def split: sum.splits prod.splits)
qed

text \<open>The stages of an awaited call, named.\<close>

lemma start_stages:
  assumes "unwatch st = None"
  obtains
    (first) st0 out1 st1 where
      "start_enter w st = (Pending AwaitResolve, st0)"
      "start_resume w AwaitResolve st0 = (out1, st1)"
      "\<forall>wp. out1 \<noteq> Pending wp" "start w st = (out1, st1)"
  | (second) st0 wp1 st1 out2 st2 where
      "start_enter w st = (Pending AwaitResolve, st0)"
      "start_resume w AwaitResolve st0 = (Pending wp1, st1)"
      "start_resume w wp1 st1 = (out2, st2)"
      "\<forall>wp. out2 \<noteq> Pending wp" "start w st = (out2, st2)"
  | (third) st0 wp1 st1 wp2 st2 out3 st3 where
      "start_enter w st = (Pending AwaitResolve, st0)"
      "start_resume w AwaitResolve st0 = (Pending wp1, st1)"
      "start_resume w wp1 st1 = (Pending wp2, st2)"
      "start_resume w wp2 st2 = (out3, st3)"
      "start w st = (out3, st3)"
proof -
  obtain st0 where e: "start_enter w st = (Pending AwaitResolve, st0)"
    using assms by (simp add: start_enter_def)
  obtain out1 st1 where r1: "start_resume w AwaitResolve st0 = (out1, st1)"
    by (cases "start_resume w AwaitResolve st0")
  show thesis
  proof (cases out1)
    case (Pending wp1)
    obtain out2 st2 where r2: "start_resume w wp1 st1 = (out2, st2)"
      by (cases "start_resume w wp1 st1")
    show thesis
    proof (cases out2)
      case p2: (Pending wp2)
      obtain out3 st3 where r3: "start_resume w wp2 st2 = (out3, st3)"
        by (cases "start_resume w wp2 st2")
      have "start w st = (out3, st3)"
        by (simp add: start_def settle_def e r1 Pending r2 p2 r3)
      with e r1 r2 r3 Pending p2 show thesis by (intro third) simp_all
    next
      case Resolved
      have "start w st = (out2, st2)"
        by (simp add: start_def settle_def e r1 Pending r2 Resolved)
      with e r1 r2 Pending Resolved show thesis by (intro second) simp_all
    next
      case (Rejected err)
      have "start w st = (out2, st2)"
        by (simp add: start_def settle_def e r1 Pending r2 Rejected)
      with e r1 r2 Pending Rejected show thesis by (intro second) simp_all
    qed
  next
    case Resolved
    have "start w st = (out1, st1)"
      by (simp add: start_def settle_def e r1 Resolved)
    with e r1 Resolved show thesis by (intro first) simp_all
  next
    case (Rejected err)
    have "start w st = (out1, st1)"
      by (simp add: start_def settle_def e r1 Rejected)
    with e r1 Rejected show thesis by (intro first) simp_all
  qed
qed



lemma start_Resolved:
  assumes "start w st = (Resolved, st')"
  shows "unwatch st' \<noteq> None"
proof (cases "unwatch st = None")
  case False
  with assms show ?thesis by (simp add: start_guard)
next
  case True
  then show ?thesis
  proof (cases rule: start_stages [where w = w])
    case (first st0 out1 st1)
    with assms have "start_resume w AwaitResolve st0 = (Resolved, st')" by simp
    then show ?thesis by (simp add: start_resume_Resolved)
  next
    case (second st0 wp1 st1 out2 st2)
    with assms have "start_resume w wp1 st1 = (Resolved, st')" by simp
    then show ?thesis by (simp add: start_resume_Resolved)
  next
    case (third st0 wp1 st1 wp2 st2 out3 st3)
    with assms have "start_resume w wp2 st2 = (Resolved, st')" by simp
    then show ?thesis by (simp add: start_resume_Resolved)
  qed
qed




lemma process_log_fields:
  "orderBook (process_log now lg st) = (if args lg \<noteq> None \<and> token0Decimals st \<noteq> None
       \<and> token1Decimals st \<noteq> None then [] else orderBook st)
   \<and> unwatch (process_log now lg st) = unwatch st
   \<and> token0Decimals (process_log now lg st) = token0Decimals st
   \<and> token1Decimals (process_log now lg st) = token1Decimals st"
  by (auto simp: process_log_def Let_def split: option.splits)

lemma process_log_trace:
  "trace (process_log now lg st) = trace st
   \<or> (\<exists>ev. trace (process_log now lg st) = trace st @ [Emit_swap ev]
          \<and> SwapUpdateEvent.orderBook ev = [])"
  by (auto simp: process_log_def Let_def split: option.splits)

lemma resolve_reads:
  "fst (resolvePoolAddress w params) = []
   \<or> fst (resolvePoolAddress w params) = [(marketAddress params, ''getEpoch'')]"
  by (auto simp: resolvePoolAddress_def Let_def split: option.splits)

lemma quiet_constructor: "constructor vc options = (es, Inr st) \<Longrightarrow> quiet st"
  by (auto simp: constructor_def quiet_def Let_def split: option.splits if_splits)

lemma quiet_start_enter: "quiet st \<Longrightarrow> quiet (snd (start_enter w st))"
  using resolve_reads [of w "opts st"]
  by (auto simp: start_enter_def quiet_def reads_def listener_reads_def)

lemma quiet_start_resume: "quiet st \<Longrightarrow> quiet (snd (start_resume w wp st))"
proof (cases wp)
  case AwaitResolve
  assume "quiet st"
  with AwaitResolve show ?thesis
    by (auto simp: start_resume_def start_catch_def Let_def quiet_def reads_def listener_reads_def
        split: sum.splits)
next
  case AwaitTokenAddresses
  assume "quiet st"
  with AwaitTokenAddresses show ?thesis
    by (auto simp: start_resume_def start_catch_def quiet_def reads_def listener_reads_def
        split: sum.splits prod.splits)
next
  case (AwaitDecimals a0 a1)
  assume "quiet st"
  with AwaitDecimals show ?thesis
    by (auto simp: start_resume_def start_catch_def Let_def quiet_def reads_def listener_reads_def
        split: sum.splits prod.splits)
qed

lemma quiet_process_log: "quiet st \<Longrightarrow> quiet (process_log now lg st)"
  using process_log_fields [of now lg st] process_log_trace [of now lg st]
  by (auto simp: quiet_def)

lemma quiet_onLogs: "quiet st \<Longrightarrow> quiet (onLogs logs st)"
  by (induction logs st rule: onLogs.induct) (simp_all add: quiet_process_log)

lemma quiet_onError: "quiet st \<Longrightarrow> quiet (onError msg st)"
  by (auto simp: onError_def quiet_def)

lemma quiet_stop: "quiet st \<Longrightarrow> quiet (stop st)"
  by (auto simp: stop_def quiet_def split: option.splits)

lemma reachable_quiet: "reachable st \<Longrightarrow> quiet st"
  by (induction rule: reachable.induct)
     (simp_all add: quiet_constructor quiet_start_enter quiet_start_resume quiet_onLogs
        quiet_onError quiet_stop)

lemma reachable_start: "reachable st \<Longrightarrow> reachable (snd (start w st))"
proof (cases "unwatch st = None")
  case False
  assume "reachable st"
  with False show ?thesis by (simp add: start_guard)
next
  case True
  assume r: "reachable st"
  from True show ?thesis
  proof (cases rule: start_stages [where w = w])
    case (first st0 out1 st1)
    from r have "reachable (snd (start_enter w st))" by (rule reachable.entered)
    then have "reachable st0" using first(1) by simp
    then have "reachable (snd (start_resume w AwaitResolve st0))" by (rule reachable.resumed)
    then show ?thesis using first by simp
  next
    case (second st0 wp1 st1 out2 st2)
    from r have "reachable (snd (start_enter w st))" by (rule reachable.entered)
    then have "reachable st0" using second(1) by simp
    then have "reachable (snd (start_resume w AwaitResolve st0))" by (rule reachable.resumed)
    then have "reachable st1" using second(2) by simp
    then have "reachable (snd (start_resume w wp1 st1))" by (rule reachable.resumed)
    then show ?thesis using second by simp
  next
    case (third st0 wp1 st1 wp2 st2 out3 st3)
    from r have "reachable (snd (start_enter w st))" by (rule reachable.entered)
    then have "reachable st0" using third(1) by simp
    then have "reachable (snd (start_resume w AwaitResolve st0))" by (rule reachable.resumed)
    then have "reachable st1" using third(2) by simp
    then have "reachable (snd (start_resume w wp1 st1))" by (rule reachable.resumed)
    then have "reachable st2" using third(3) by simp
    then have "reachable (snd (start_resume w wp2 st2))" by (rule reachable.resumed)
    then show ?thesis using third by simp
  qed
qed

lemma constructor_mainnet: "constructor viem_chains mainnet_opts = ([], Inr created)"
  by (simp add: constructor_def supportedChains_def viem_chains_def mainnet_opts_def created_def
      Let_def)


lemma resolve_good:
  "resolvePoolAddress good_world mainnet_opts =
     ([(''0x1F98431c8aD98523631AE4a59f267346ea31F984'', ''getEpoch'')],
      Inr ''0x8ad599c3A0ff1De082011EFDDc58f1908eb6e6D8'')"
  by (simp add: resolvePoolAddress_def RPC_URLS_def good_world_def mainnet_opts_def zeroAddress_def)


lemma created_fields: "unwatch created = None" "opts created = mainnet_opts" "trace created = []"
  by (simp_all add: created_def)

lemma good_world_fields:
  "read_token0 good_world = Inr ''0xA0b86991c6218b36c1d19D4a2e9Eb0cE3606eB48''"
  "read_token1 good_world = Inr ''0xC02aaA39b223FE8D0A0e5C4F27eAD9083C756Cc2''"
  "read_decimals good_world a = Inr 18"
  by (simp_all add: good_world_def)

lemma start_good:
  "start good_world created =
     (Resolved,
      created\<lparr>poolAddress := Some ''0x8ad599c3A0ff1De082011EFDDc58f1908eb6e6D8'',
              unwatch := Some 0,
              token0Address := Some ''0xA0b86991c6218b36c1d19D4a2e9Eb0cE3606eB48'',
              token1Address := Some ''0xC02aaA39b223FE8D0A0e5C4F27eAD9083C756Cc2'',
              token0Decimals := Some 18,
              token1Decimals := Some 18,
              trace := [ReadContract ''0x1F98431c8aD98523631AE4a59f267346ea31F984'' ''getEpoch'',
                        ReadContract ''0x8ad599c3A0ff1De082011EFDDc58f1908eb6e6D8'' ''token0'',
                        ReadContract ''0x8ad599c3A0ff1De082011EFDDc58f1908eb6e6D8'' ''token1'',
                        ReadContract ''0xA0b86991c6218b36c1d19D4a2e9Eb0cE3606eB48'' ''decimals'',
                        ReadContract ''0xC02aaA39b223FE8D0A0e5C4F27eAD9083C756Cc2'' ''decimals'',
                        WatchContractEvent (Some ''0x8ad599c3A0ff1De082011EFDDc58f1908eb6e6D8'') 0]\<rparr>)"
proof -
  let ?s0 = "created\<lparr>trace :=
     [ReadContract ''0x1F98431c8aD98523631AE4a59f267346ea31F984'' ''getEpoch'']\<rparr>"
  let ?s1 = "?s0\<lparr>poolAddress := Some ''0x8ad599c3A0ff1De082011EFDDc58f1908eb6e6D8'',
     trace := trace ?s0 @
       [ReadContract ''0x8ad599c3A0ff1De082011EFDDc58f1908eb6e6D8'' ''token0'',
        ReadContract ''0x8ad599c3A0ff1De082011EFDDc58f1908eb6e6D8'' ''token1'']\<rparr>"
  let ?s2 = "?s1\<lparr>token0Address := Some ''0xA0b86991c6218b36c1d19D4a2e9Eb0cE3606eB48'',
     token1Address := Some ''0xC02aaA39b223FE8D0A0e5C4F27eAD9083C756Cc2'',
     trace := trace ?s1 @
       [ReadContract ''0xA0b86991c6218b36c1d19D4a2e9Eb0cE3606eB48'' ''decimals'',
        ReadContract ''0xC02aaA39b223FE8D0A0e5C4F27eAD9083C756Cc2'' ''decimals'']\<rparr>"
  have e: "start_enter good_world created = (Pending AwaitResolve, ?s0)"
    by (simp add: start_enter_def created_fields resolve_good reads_def)
  have r1: "start_resume good_world AwaitResolve ?s0 = (Pending AwaitTokenAddresses, ?s1)"
    by (simp add: start_resume_def created_fields resolve_good reads_def Let_def)
  have r2: "start_resume good_world AwaitTokenAddresses ?s1 =
      (Pending (AwaitDecimals ''0xA0b86991c6218b36c1d19D4a2e9Eb0cE3606eB48''
                  ''0xC02aaA39b223FE8D0A0e5C4F27eAD9083C756Cc2''), ?s2)"
    by (simp add: start_resume_def good_world_fields promise_all_def reads_def)
  have r3: "start_resume good_world
      (AwaitDecimals ''0xA0b86991c6218b36c1d19D4a2e9Eb0cE3606eB48''
                  ''0xC02aaA39b223FE8D0A0e5C4F27eAD9083C756Cc2'') ?s2 =
      (Resolved, ?s2\<lparr>token0Decimals := Some 18, token1Decimals := Some 18,
           unwatch := Some 0,
           trace := trace ?s2 @
             [WatchContractEvent (Some ''0x8ad599c3A0ff1De082011EFDDc58f1908eb6e6D8'') 0]\<rparr>)"
    by (simp add: start_resume_def good_world_fields promise_all_def Let_def next_handle_def
        created_fields)
  have "start good_world created =
      (Resolved, ?s2\<lparr>token0Decimals := Some 18, token1Decimals := Some 18,
           unwatch := Some 0,
           trace := trace ?s2 @
             [WatchContractEvent (Some ''0x8ad599c3A0ff1De082011EFDDc58f1908eb6e6D8'') 0]\<rparr>)"
    by (simp only: start_def settle_def e r1 r2 r3 prod.case outcome.case)
  then show ?thesis
    by (simp add: created_fields)
qed

lemma start_good_watching:
  "fst (start good_world created) = Resolved
   \<and> unwatch (snd (start good_world created)) = Some 0
   \<and> token0Decimals (snd (start good_world created)) = Some 18
   \<and> token1Decimals (snd (start good_world created)) = Some 18"
  by (simp add: start_good)

lemma reachable_created: "reachable created"
  using constructor_mainnet by (rule reachable.constructed)

lemma settle_good:
  assumes "opts st = mainnet_opts"
  shows "settle good_world AwaitResolve st =
     (Resolved,
      st\<lparr>poolAddress := Some ''0x8ad599c3A0ff1De082011EFDDc58f1908eb6e6D8'',
         token0Address := Some ''0xA0b86991c6218b36c1d19D4a2e9Eb0cE3606eB48'',
         token1Address := Some ''0xC02aaA39b223FE8D0A0e5C4F27eAD9083C756Cc2'',
         token0Decimals := Some 18,
         token1Decimals := Some 18,
         unwatch := Some (next_handle (trace st)),
         trace := trace st @
           [ReadContract ''0x8ad599c3A0ff1De082011EFDDc58f1908eb6e6D8'' ''token0'',
            ReadContract ''0x8ad599c3A0ff1De082011EFDDc58f1908eb6e6D8'' ''token1'',
            ReadContract ''0xA0b86991c6218b36c1d19D4a2e9Eb0cE3606eB48'' ''decimals'',
            ReadContract ''0xC02aaA39b223FE8D0A0e5C4F27eAD9083C756Cc2'' ''decimals'',
            WatchContractEvent (Some ''0x8ad599c3A0ff1De082011EFDDc58f1908eb6e6D8'')
              (next_handle (trace st))]\<rparr>)"
proof -
  let ?s1 = "st\<lparr>poolAddress := Some ''0x8ad599c3A0ff1De082011EFDDc58f1908eb6e6D8'',
     trace := trace st @
       [ReadContract ''0x8ad599c3A0ff1De082011EFDDc58f1908eb6e6D8'' ''token0'',
        ReadContract ''0x8ad599c3A0ff1De082011EFDDc58f1908eb6e6D8'' ''token1'']\<rparr>"
  let ?s2 = "?s1\<lparr>token0Address := Some ''0xA0b86991c6218b36c1d19D4a2e9Eb0cE3606eB48'',
     token1Address := Some ''0xC02aaA39b223FE8D0A0e5C4F27eAD9083C756Cc2'',
     trace := trace ?s1 @
       [ReadContract ''0xA0b86991c6218b36c1d19D4a2e9Eb0cE3606eB48'' ''decimals'',
        ReadContract ''0xC02aaA39b223FE8D0A0e5C4F27eAD9083C756Cc2'' ''decimals'']\<rparr>"
  have r1: "start_resume good_world AwaitResolve st = (Pending AwaitTokenAddresses, ?s1)"
    by (simp add: start_resume_def assms resolve_good reads_def Let_def)
  have r2: "start_resume good_world AwaitTokenAddresses ?s1 =
      (Pending (AwaitDecimals ''0xA0b86991c6218b36c1d19D4a2e9Eb0cE3606eB48''
                  ''0xC02aaA39b223FE8D0A0e5C4F27eAD9083C756Cc2''), ?s2)"
    by (simp add: start_resume_def good_world_fields promise_all_def reads_def)
  have r3: "start_resume good_world
      (AwaitDecimals ''0xA0b86991c6218b36c1d19D4a2e9Eb0cE3606eB48''
                  ''0xC02aaA39b223FE8D0A0e5C4F27eAD9083C756Cc2'') ?s2 =
      (Resolved, ?s2\<lparr>token0Decimals := Some 18, token1Decimals := Some 18,
           unwatch := Some (next_handle (trace st)),
           trace := trace ?s2 @
             [WatchContractEvent (Some ''0x8ad599c3A0ff1De082011EFDDc58f1908eb6e6D8'')
                (next_handle (trace st))]\<rparr>)"
    by (simp add: start_resume_def good_world_fields promise_all_def Let_def next_handle_def)
  have "settle good_world AwaitResolve st =
      (Resolved, ?s2\<lparr>token0Decimals := Some 18, token1Decimals := Some 18,
           unwatch := Some (next_handle (trace st)),
           trace := trace ?s2 @
             [WatchContractEvent (Some ''0x8ad599c3A0ff1De082011EFDDc58f1908eb6e6D8'')
                (next_handle (trace st))]\<rparr>)"
    by (simp only: settle_def r1 r2 r3 prod.case outcome.case)
  then show ?thesis by simp
qed

section \<open>Claims about the market listener\<close>

text \<open>
  Claim C3. In every state a listener can reach (made by the constructor, then changed by
  calls of \<open>start\<close>, by processed swap logs, by transport errors and by \<open>stop\<close>) the
  stored order book is the empty list and \<open>getOrderBook\<close> returns the empty list; every
  swap notification emitted so far carries an empty order book; and the listener has read
  no contract function but \<open>getEpoch\<close>, \<open>token0\<close>, \<open>token1\<close> and \<open>decimals\<close>, so the
  builder, which begins by reading \<open>slot0\<close>, was never run by it.
\<close>

theorem order_book_always_empty:
  assumes "reachable st"
  shows "orderBook st = [] \<and> getOrderBook st = []
       \<and> (\<forall>ev. Emit_swap ev \<in> set (trace st) \<longrightarrow> SwapUpdateEvent.orderBook ev = [])
       \<and> (\<forall>a f. ReadContract a f \<in> set (trace st) \<longrightarrow>
             f \<in> {''getEpoch'', ''token0'', ''token1'', ''decimals''})"
  using reachable_quiet [OF assms]
  by (simp add: quiet_def getOrderBook_def listener_reads_def)

theorem order_book_always_empty_witness:
  "orderBook (stop (onLogs [(1700000000000, unit_swap)] (snd (start good_world created)))) = []
   \<and> getOrderBook (stop (onLogs [(1700000000000, unit_swap)] (snd (start good_world created)))) = []"
proof -
  have "reachable (stop (onLogs [(1700000000000, unit_swap)] (snd (start good_world created))))"
    by (intro reachable.stopped reachable.logs_delivered reachable_start reachable_created)
  from order_book_always_empty [OF this] show ?thesis by simp
qed

text \<open>
  Claim C5, as amended. A call of \<open>start\<close> on a listener that holds a subscription
  returns at once and changes nothing: no read, no subscription, no notification. So a
  second call made after a first call has resolved is a no-op.
\<close>

theorem start_while_watching_is_noop:
  "(unwatch st \<noteq> None \<longrightarrow> start w st = (Resolved, st) \<and> start_enter w st = (Resolved, st))
   \<and> (\<forall>st1. start w st = (Resolved, st1) \<longrightarrow> start w' st1 = (Resolved, st1))"
  by (auto simp: start_guard start_enter_def dest: start_Resolved)

theorem start_while_watching_is_noop_witness:
  "start good_world (snd (start good_world created)) = (Resolved, snd (start good_world created))"
proof -
  have "start good_world created = (Resolved, snd (start good_world created))"
    by (simp add: start_good)
  with start_while_watching_is_noop [of created good_world good_world] show ?thesis by blast
qed

text \<open>
  Claim C5 as it is written also covers a call made while an earlier call still waits for
  the resolution or for the token reads. Such a call passes the guard, which looks at the
  subscription only: it asks for the pool address a second time, and when both calls
  have settled two subscriptions are open.
\<close>

theorem start_while_resolving_counterexample:
  "start_enter good_world (snd (start_enter good_world created)) =
     (Pending AwaitResolve,
      created\<lparr>trace := [ReadContract ''0x1F98431c8aD98523631AE4a59f267346ea31F984'' ''getEpoch'',
                        ReadContract ''0x1F98431c8aD98523631AE4a59f267346ea31F984'' ''getEpoch'']\<rparr>)
   \<and> opened (trace (snd (settle good_world AwaitResolve
                 (snd (settle good_world AwaitResolve
                   (snd (start_enter good_world (snd (start_enter good_world created))))))))) = [0, 1]"
proof -
  let ?s2 = "created\<lparr>trace := [ReadContract ''0x1F98431c8aD98523631AE4a59f267346ea31F984'' ''getEpoch'',
                        ReadContract ''0x1F98431c8aD98523631AE4a59f267346ea31F984'' ''getEpoch'']\<rparr>"
  have twice: "start_enter good_world (snd (start_enter good_world created)) = (Pending AwaitResolve, ?s2)"
    by (simp add: start_enter_def created_fields resolve_good reads_def)
  have o2: "opts ?s2 = mainnet_opts" by (simp add: created_fields)
  have h2: "next_handle (trace ?s2) = 0" by (simp add: next_handle_def)
  note a = settle_good [OF o2]
  have o3: "opts (snd (settle good_world AwaitResolve ?s2)) = mainnet_opts"
    by (simp add: a created_fields)
  note b = settle_good [OF o3]
  have "opened (trace (snd (settle good_world AwaitResolve
                 (snd (settle good_world AwaitResolve ?s2))))) = [0, 1]"
    by (simp add: b) (simp add: a next_handle_def)
  with twice show ?thesis by simp
qed




text \<open>
  Claim C9. A listener that holds a subscription knows both token decimals, and a swap log
  it processes sets the market price to \<open>(sqrtPriceX96 / 2^96)^2 * 10^(d0 - d1)\<close> and
  emits one swap notification with that price, the arguments of the log, the pool address,
  the id of the chain, the market id and the reading of the clock. With
  \<open>sqrtPriceX96 = 2^96\<close> and equal decimals the price is 1.
\<close>

theorem swap_price_notification:
  assumes "reachable st" and "unwatch st \<noteq> None" and "args lg = Some swapArgs"
  shows "\<exists>d0 d1. token0Decimals st = Some d0 \<and> token1Decimals st = Some d1
      \<and> process_log now lg st =
          st\<lparr>marketPrice := Some ((real_of_int (sqrtPriceX96 swapArgs) / 2 ^ 96) ^ 2 * 10 powi (d0 - d1)),
             orderBook := [],
             trace := trace st @
               [Emit_swap
                 \<lparr>SwapUpdateEvent.marketPrice =
                    Some ((real_of_int (sqrtPriceX96 swapArgs) / 2 ^ 96) ^ 2 * 10 powi (d0 - d1)),
                  SwapUpdateEvent.orderBook = [],
                  rawSwapArgs = Some swapArgs,
                  SwapUpdateEvent.poolAddress = poolAddress st,
                  SwapUpdateEvent.chainId = chain_id (selectedChain st),
                  SwapUpdateEvent.marketId = PoolResolverParams.marketId (opts st),
                  timestamp = now\<rparr>]\<rparr>
      \<and> (sqrtPriceX96 swapArgs = 2 ^ 96 \<and> d0 = d1 \<longrightarrow>
           (real_of_int (sqrtPriceX96 swapArgs) / 2 ^ 96) ^ 2 * 10 powi (d0 - d1) = 1)"
proof -
  from reachable_quiet [OF assms(1)] assms(2)
  obtain d0 d1 where d: "token0Decimals st = Some d0" "token1Decimals st = Some d1"
    by (auto simp: quiet_def)
  show ?thesis
    by (intro exI [of _ d0] exI [of _ d1]) (simp add: d assms(3) process_log_def Let_def)
qed

theorem swap_price_notification_witness:
  "getMarketPrice (process_log 1700000000000 unit_swap (snd (start good_world created))) = Some 1"
proof -
  let ?st = "snd (start good_world created)"
  have r: "reachable ?st" by (intro reachable_start reachable_created)
  have u: "unwatch ?st \<noteq> None" by (simp add: start_good)
  have a: "args unit_swap = Some \<lparr>sender = ''0xE592427A0AEce92De3Edee1F18E0157C05861564'',
                    recipient = ''0xE592427A0AEce92De3Edee1F18E0157C05861564'',
                    amount0 = 1000, amount1 = - 1000,
                    sqrtPriceX96 = 2 ^ 96, liquidity = 1000000, tick = 0\<rparr>"
    by (simp add: unit_swap_def)
  have d: "token0Decimals ?st = Some 18" "token1Decimals ?st = Some 18"
    by (simp_all add: start_good)
  from swap_price_notification [OF r u a, of 1700000000000] d
  show ?thesis by (auto simp: getMarketPrice_def)
qed

section \<open>Claims about the price of a tick\<close>

text \<open>
  Claim C10. With the numbers of the source read as exact reals, the price of a tick is
  strictly larger than the price of the tick one positive spacing above it, for every
  tick and every pair of token decimals: the price strictly decreases in the tick index.
\<close>

theorem tickToPrice_strictly_decreasing:
  "0 < spacing \<Longrightarrow> tickToPrice T d0 d1 > tickToPrice (T + spacing) d0 d1"
  by (rule tickToPrice_less) simp

theorem tickToPrice_strictly_decreasing_witness:
  "(0::int) < 60 \<and> tickToPrice 0 18 18 > tickToPrice (0 + 60) 18 18"
  using tickToPrice_strictly_decreasing [of 60 0 18 18] by simp

end
